theory Spec2Isabelle
  imports Main "HOL-Library.AList"
begin

section \<open>JavaScript values and strings\<close>

text \<open>
  The script \<^verbatim>\<open>opsview-html-email.js\<close> handles strings and the absence of a string
  (\<^verbatim>\<open>undefined\<close>, or \<^verbatim>\<open>null\<close> for the initial subject). A value of that
  kind is a \<^typ>\<open>string option\<close>, with \<^term>\<open>None\<close> for the absent one.
\<close>

definition truthy :: "string option \<Rightarrow> bool" where
  \<comment> \<open>JavaScript truthiness: \<^verbatim>\<open>undefined\<close>, \<^verbatim>\<open>null\<close> and the empty string are falsy,
      every other string is truthy.\<close>
  "truthy v = (case v of None \<Rightarrow> False | Some s \<Rightarrow> s \<noteq> [])"

definition format_s :: "string option \<Rightarrow> string" where
  \<comment> \<open>What \<^verbatim>\<open>util.format\<close> puts in the place of a \<^verbatim>\<open>%s\<close>: \<^verbatim>\<open>String(v)\<close>.\<close>
  "format_s v = (case v of None \<Rightarrow> ''undefined'' | Some s \<Rightarrow> s)"

fun join :: "string \<Rightarrow> string list \<Rightarrow> string" where
  \<comment> \<open>\<^verbatim>\<open>Array.prototype.join\<close> on an array of strings.\<close>
  "join sep [] = []"
| "join sep [x] = x"
| "join sep (x # y # ys) = x @ sep @ join sep (y # ys)"

definition usage :: string where
  "usage = join [CHR 0x0A]
    [''Usage: opsview-html-email [options] [arg1] [arg2] ...'',
     [],
     ''This command is meant to be run from nagios when a service or host'',
     ''experiences problems.  The output will be suitable for passing to'',
     ''a mail program that takes raw email data like '' @ [CHR 0x60] @ ''mailx -t'' @ [CHR 0x60],
     [],
     ''Options'',
     ''  -a, --address <email>      the email address to send mail to, defaults to env NAGIOS_CONTACTEMAIL'',
     ''  -h, --help                 print this message and exit'',
     ''  -s, --subject <subject>    the email subject to use, defaults to _subject for the host/service, or default nagios subject'',
     ''  -t, --template-dir <dir>   dir to find ejs template files, defaults to builtin templates'',
     ''  -u, --updates              check for available updates on npm'',
     ''  -v, --version              print the version number and exit'']"

section \<open>Objects with string properties\<close>

text \<open>
  \<^verbatim>\<open>process.env\<close> and the object \<^verbatim>\<open>nagios\<close> hold string properties. An object is an
  association list in the order the properties were created; reading a property is
  \<^term>\<open>map_of\<close>. The object \<^verbatim>\<open>nagios\<close> starts as the literal \<^verbatim>\<open>{}\<close>, whose
  prototype is \<^verbatim>\<open>Object.prototype\<close>: an assignment \<^verbatim>\<open>nagios[k] = v\<close> creates or
  overwrites the own property \<^verbatim>\<open>k\<close>, except for the key \<^verbatim>\<open>__proto__\<close>, which
  reaches the setter inherited from \<^verbatim>\<open>Object.prototype\<close>; that setter ignores a
  value that is neither an object nor \<^verbatim>\<open>null\<close>, so a string assigned there leaves the
  object as it was.
\<close>

type_synonym obj = "(string \<times> string) list"

definition set_prop :: "obj \<Rightarrow> string \<Rightarrow> string \<Rightarrow> obj" where
  "set_prop ob k v = (if k = ''__proto__'' then ob else AList.update k v ob)"

definition starts_with :: "string \<Rightarrow> string \<Rightarrow> bool" where
  \<comment> \<open>\<^verbatim>\<open>key.indexOf(p) === 0\<close>\<close>
  "starts_with p key = (take (length p) key = p)"

definition prefix :: string where
  \<comment> \<open>The prefix in \<^verbatim>\<open>key.indexOf('NAGIOS_')\<close> and in \<^verbatim>\<open>/^NAGIOS_/\<close>.\<close>
  "prefix = ''NAGIOS_''"

definition strip_prefix :: "string \<Rightarrow> string" where
  \<comment> \<open>\<^verbatim>\<open>key.replace(/^NAGIOS_/, '')\<close>\<close>
  "strip_prefix key = (if starts_with prefix key then drop (length prefix) key else key)"

definition nagios_step :: "obj \<Rightarrow> obj \<Rightarrow> string \<Rightarrow> obj" where
  \<comment> \<open>The body of the \<^verbatim>\<open>forEach\<close> callback, for one key of \<^verbatim>\<open>process.env\<close>. The key
      comes from \<^verbatim>\<open>Object.keys(process.env)\<close>, so \<^verbatim>\<open>process.env[key]\<close> is a string.\<close>
  "nagios_step penv nagios key =
     (if starts_with prefix key
      then (case map_of penv key of
              Some v \<Rightarrow> set_prop nagios (strip_prefix key) v
            | None \<Rightarrow> nagios)
      else nagios)"

definition nagios_of :: "obj \<Rightarrow> obj" where
  \<comment> \<open>\<^verbatim>\<open>var nagios = {}; Object.keys(process.env).forEach(...)\<close>\<close>
  "nagios_of penv = foldl (nagios_step penv) [] (map fst penv)"

section \<open>The inputs of a run\<close>

text \<open>
  Modelled from the spec: the file \<^verbatim>\<open>package.json\<close> that the script requires is
  static package metadata, a name and a version.
\<close>

record package =
  name :: string
  version :: string

text \<open>
  What \<^verbatim>\<open>parser.getopt()\<close> returns for the option string
  \<^verbatim>\<open>a:(address)h(help)s:(subject)t:(template-dir)u(updates)v(version)\<close>: one of the
  six options, the three that take an argument with their \<^verbatim>\<open>optarg\<close>, or an error
  result (option \<^verbatim>\<open>?\<close>) for an unknown option or a missing argument.
\<close>

datatype getopt_result =
  Opt_a string | Opt_h | Opt_s string | Opt_t string | Opt_u | Opt_v | Opt_error

record data =
  args :: "string list"
  nagios :: obj
  package :: package
  d :: "string option"

text \<open>
  Everything a run reads: the process environment, the results of the successive calls
  of \<^verbatim>\<open>parser.getopt()\<close>, the arguments after the options, the directory of the
  script, the package metadata, and the library functions it calls. A library call that
  throws returns \<^term>\<open>Inl\<close> with the \<^verbatim>\<open>message\<close> of the exception.
\<close>

record world =
  process_env :: obj
  getopt_results :: "getopt_result list"
  argv_rest :: "string list"
  dirname :: string
  package_json :: package
  path_join :: "string \<Rightarrow> string \<Rightarrow> string"
  json_stringify :: "data \<Rightarrow> string"
  ejs_render :: "string \<Rightarrow> data \<Rightarrow> string + string"
  readFileSync :: "string \<Rightarrow> string + string"
  checkupdate :: "package \<Rightarrow> int \<times> string"

record opts =
  subject :: "string option"
  templatedir :: string
  to :: "string option"

text \<open>
  What a run leaves behind: the lines written by \<^verbatim>\<open>console.log\<close>, the lines written by
  \<^verbatim>\<open>console.error\<close> and the exit status (0 when the script runs to its end).
\<close>

record result =
  stdout :: "string list"
  stderr :: "string list"
  exit_code :: int

section \<open>The script\<close>

text \<open>
  The \<^verbatim>\<open>while\<close> loop over the results of \<^verbatim>\<open>parser.getopt()\<close>. The options
  \<^verbatim>\<open>-h\<close> and \<^verbatim>\<open>-v\<close> and an error result end the run inside the loop with
  \<^verbatim>\<open>process.exit\<close>; \<^verbatim>\<open>-u\<close> leaves the script with \<^verbatim>\<open>return\<close>, and the callback given to
  \<^verbatim>\<open>checkupdate\<close> prints the message and exits with the status it receives. A call of
  \<^verbatim>\<open>console.log\<close> or \<^verbatim>\<open>console.error\<close> adds one line: its single string argument as it
  is, or its format string with each \<^verbatim>\<open>%s\<close> replaced by \<^term>\<open>format_s\<close> of the argument.
\<close>

fun getopt_loop :: "world \<Rightarrow> getopt_result list \<Rightarrow> opts \<Rightarrow> result + opts" where
  "getopt_loop w [] os = Inr os"
| "getopt_loop w (Opt_a optarg # rest) os = getopt_loop w rest (os\<lparr>to := Some optarg\<rparr>)"
| "getopt_loop w (Opt_h # rest) os = Inl \<lparr>stdout = [usage], stderr = [], exit_code = 0\<rparr>"
| "getopt_loop w (Opt_s optarg # rest) os = getopt_loop w rest (os\<lparr>subject := Some optarg\<rparr>)"
| "getopt_loop w (Opt_t optarg # rest) os = getopt_loop w rest (os\<lparr>templatedir := optarg\<rparr>)"
| "getopt_loop w (Opt_u # rest) os =
     (case checkupdate w (package_json w) of
        (ret, msg) \<Rightarrow> Inl \<lparr>stdout = [msg], stderr = [], exit_code = ret\<rparr>)"
| "getopt_loop w (Opt_v # rest) os =
     Inl \<lparr>stdout = [version (package_json w)], stderr = [], exit_code = 0\<rparr>"
| "getopt_loop w (Opt_error # rest) os = Inl \<lparr>stdout = [], stderr = [usage], exit_code = 1\<rparr>"

definition alert_type :: "obj \<Rightarrow> obj \<Rightarrow> string option" where
  \<comment> \<open>The type, from \<^verbatim>\<open>process.env\<close> and \<^verbatim>\<open>data.nagios\<close>.\<close>
  "alert_type penv nag =
     (if \<not> truthy (map_of penv ''NAGIOS_SERVICEATTEMPT'') then Some ''host''
      else if truthy (map_of nag ''NOTIFICATIONAUTHOR'') then Some ''ack''
      else Some ''service'')"

definition default_subject :: "string option \<Rightarrow> data \<Rightarrow> string" where
  \<comment> \<open>The \<^verbatim>\<open>switch (type)\<close> that builds the subject.\<close>
  "default_subject type dat =
     (if type = Some ''host'' then
        format_s (map_of (nagios dat) ''HOSTADDRESS'') @ '' is '' @
        format_s (map_of (nagios dat) ''HOSTSTATE'')
      else if type = Some ''service'' then
        format_s (map_of (nagios dat) ''SERVICESTATE'') @ '': '' @
        format_s (map_of (nagios dat) ''HOSTADDRESS'') @ '' - '' @
        format_s (map_of (nagios dat) ''SERVICEDESC'')
      else if type = Some ''ack'' then
        format_s (map_of (nagios dat) ''NOTIFICATIONTYPE'') @ '': '' @
        format_s (map_of (nagios dat) ''HOSTADDRESS'') @ '' - '' @
        format_s (map_of (nagios dat) ''SERVICEDESC'')
      else ''unknown type - '' @ format_s type)"

definition with_subject :: "opts \<Rightarrow> string option \<Rightarrow> data \<Rightarrow> opts" where
  \<comment> \<open>\<^verbatim>\<open>if (!opts.subject) { ... }\<close>\<close>
  "with_subject os type dat =
     (if \<not> truthy (subject os) then os\<lparr>subject := Some (default_subject type dat)\<rparr>
      else os)"

definition headers :: "opts \<Rightarrow> string list" where
  \<comment> \<open>The five calls of \<^verbatim>\<open>console.log\<close> under the comment \<^verbatim>\<open>email headers\<close>.\<close>
  "headers os =
     [''To: '' @ format_s (to os),
      ''Reply-To: '' @ format_s (to os),
      ''Subject: '' @ format_s (subject os),
      ''Content-Type: text/html'',
      []]"

definition templ :: string where
  "templ = ''<html><body><pre><%= d %></pre></body></html>''"

definition render_default :: "world \<Rightarrow> data \<Rightarrow> string option \<times> string list" where
  \<comment> \<open>The first \<^verbatim>\<open>try\<close>: the message and the lines written to the error stream.\<close>
  "render_default w dat =
     (case ejs_render w templ dat of
        Inr m \<Rightarrow> (Some m, [])
      | Inl e \<Rightarrow> (let message = ''error rendering default template!: '' @ e
                 in (Some message, [message])))"

definition render_file ::
  "world \<Rightarrow> string \<Rightarrow> data \<Rightarrow> string option \<Rightarrow> string option \<times> string list" where
  \<comment> \<open>The second \<^verbatim>\<open>try\<close>, entered with the message the first one left.\<close>
  "render_file w file dat message =
     (case readFileSync w file of
        Inl e \<Rightarrow> (message, [''template '' @ file @ '' error: '' @ e])
      | Inr t \<Rightarrow>
          (case ejs_render w t dat of
             Inl e \<Rightarrow> (message, [''template '' @ file @ '' error: '' @ e])
           | Inr m \<Rightarrow> (Some m, [])))"

definition with_d :: "world \<Rightarrow> data \<Rightarrow> data" where
  \<comment> \<open>\<^verbatim>\<open>data.d = JSON.stringify(data, null, 2)\<close>\<close>
  "with_d w dat = dat\<lparr>d := Some (json_stringify w dat)\<rparr>"

definition templfile :: "world \<Rightarrow> opts \<Rightarrow> string option \<Rightarrow> string" where
  \<comment> \<open>\<^verbatim>\<open>path.join(opts.templatedir, type + '.html.ejs')\<close>\<close>
  "templfile w os type = path_join w (templatedir os) (format_s type @ ''.html.ejs'')"

definition render_message ::
  "world \<Rightarrow> opts \<Rightarrow> string option \<Rightarrow> data \<Rightarrow> string option \<times> string list" where
  \<comment> \<open>From \<^verbatim>\<open>var message\<close> to the end of the second \<^verbatim>\<open>try\<close>.\<close>
  "render_message w os type dat =
     (let (message, errs1) = render_default w (with_d w dat);
          (message', errs2) = render_file w (templfile w os type) (with_d w dat) message
      in (message', errs1 @ errs2))"

definition type_missing :: result where
  "type_missing =
     \<lparr>stdout = [],
      stderr = [''a type must be specified as the first argument!'', [], usage],
      exit_code = 1\<rparr>"

definition to_missing :: result where
  "to_missing =
     \<lparr>stdout = [],
      stderr = [''env NAGIOS_CONTACTEMAIL or '' @ [CHR 0x60] @ ''-a <address>'' @ [CHR 0x60] @
                '' must be supplied!'', [], usage],
      exit_code = 1\<rparr>"

definition emit :: "world \<Rightarrow> opts \<Rightarrow> string option \<Rightarrow> data \<Rightarrow> result" where
  \<comment> \<open>From the subject to the end of the script.\<close>
  "emit w os type dat =
     (let os' = with_subject os type dat;
          (message, errs) = render_message w os' type dat
      in \<lparr>stdout = headers os' @ [format_s message], stderr = errs, exit_code = 0\<rparr>)"

definition data0 :: "world \<Rightarrow> data" where
  \<comment> \<open>\<^verbatim>\<open>var data = {args: args, nagios: nagios, package: package}\<close>\<close>
  "data0 w =
     \<lparr>args = argv_rest w, nagios = nagios_of (process_env w), package = package_json w,
      d = None\<rparr>"

definition body :: "world \<Rightarrow> opts \<Rightarrow> result" where
  \<comment> \<open>The script after the option loop.\<close>
  "body w os =
     (let dat = data0 w;
          type = alert_type (process_env w) (nagios dat)
      in if \<not> truthy type then type_missing
         else if \<not> truthy (to os) then to_missing
         else emit w os type dat)"

definition opts0 :: "world \<Rightarrow> opts" where
  \<comment> \<open>\<^verbatim>\<open>opts\<close> before the option loop.\<close>
  "opts0 w =
     \<lparr>subject = None,
      templatedir = path_join w (dirname w) ''templates'',
      to = map_of (process_env w) ''NAGIOS_CONTACTEMAIL''\<rparr>"

definition main :: "world \<Rightarrow> result" where
  "main w = (case getopt_loop w (getopt_results w) (opts0 w) of
               Inl r \<Rightarrow> r
             | Inr os \<Rightarrow> body w os)"

section \<open>A sample installation\<close>

text \<open>
  Concrete library functions and a concrete world, for running the script on examples:
  the template directory \<^verbatim>\<open>/opt/templates\<close> holds a template for host alerts and a
  broken one for acknowledgements, and none for service alerts; the directory
  \<^verbatim>\<open>/opt/empty\<close> holds an empty template for host alerts. The renderer knows the
  built-in template, the host template and the empty text, which it renders to the empty
  text; a second renderer fails on every template.
\<close>

definition sample_path_join :: "string \<Rightarrow> string \<Rightarrow> string" where
  "sample_path_join dir file = dir @ ''/'' @ file"

definition sample_json_stringify :: "data \<Rightarrow> string" where
  "sample_json_stringify dat = ''{ '' @ join '', '' (map fst (nagios dat)) @ '' }''"

definition sample_ejs_render :: "string \<Rightarrow> data \<Rightarrow> string + string" where
  "sample_ejs_render t dat =
     (if t = ''<html><body><pre><%= d %></pre></body></html>''
      then Inr (''<html><body><pre>'' @ format_s (d dat) @ ''</pre></body></html>'')
      else if t = ''<h1>host alert</h1>'' then Inr t
      else if t = [] then Inr []
      else Inl ''Unexpected token'')"

definition sample_ejs_broken :: "string \<Rightarrow> data \<Rightarrow> string + string" where
  "sample_ejs_broken t dat = Inl ''ejs is broken''"

definition sample_readFileSync :: "string \<Rightarrow> string + string" where
  "sample_readFileSync file =
     (if file = ''/opt/templates/host.html.ejs'' then Inr ''<h1>host alert</h1>''
      else if file = ''/opt/templates/ack.html.ejs'' then Inr ''<% if ( %>''
      else if file = ''/opt/empty/host.html.ejs'' then Inr []
      else Inl (''ENOENT, no such file or directory '' @ file))"

definition sample_checkupdate :: "package \<Rightarrow> int \<times> string" where
  "sample_checkupdate p = (0, ''you are running the latest version of '' @ name p)"

definition sample_world :: "obj \<Rightarrow> getopt_result list \<Rightarrow> world" where
  "sample_world penv gs =
     \<lparr>process_env = penv, getopt_results = gs, argv_rest = [], dirname = ''/opt'',
      package_json = \<lparr>name = ''opsview-html-email'', version = ''0.0.0''\<rparr>,
      path_join = sample_path_join, json_stringify = sample_json_stringify,
      ejs_render = sample_ejs_render, readFileSync = sample_readFileSync,
      checkupdate = sample_checkupdate\<rparr>"

section \<open>The environment snapshot\<close>

lemma starts_with_append: "starts_with p (p @ k)"
  by (simp add: starts_with_def)

lemma starts_withD: "starts_with p key \<Longrightarrow> key = p @ drop (length p) key"
  unfolding starts_with_def by (metis append_take_drop_id)

lemma strip_prefix_iff:
  "starts_with prefix key \<Longrightarrow> (strip_prefix key = k) = (key = prefix @ k)"
proof
  assume a: "starts_with prefix key" and b: "strip_prefix key = k"
  from a b have "drop (length prefix) key = k" by (simp add: strip_prefix_def)
  with starts_withD [OF a] show "key = prefix @ k" by simp
next
  assume "key = prefix @ k"
  then show "strip_prefix key = k" by (simp add: strip_prefix_def starts_with_def)
qed

lemma map_of_set_prop:
  "map_of (set_prop ob k v) k' =
     (if k = k' \<and> k \<noteq> ''__proto__'' then Some v else map_of ob k')"
  by (simp add: set_prop_def update_conv')

lemma map_of_nagios_step:
  "map_of (nagios_step penv nag key) k =
     (if key = prefix @ k \<and> k \<noteq> ''__proto__'' \<and> map_of penv key \<noteq> None
      then map_of penv key else map_of nag k)"
proof (cases "starts_with prefix key")
  case True
  note sp = strip_prefix_iff [OF True]
  show ?thesis
  proof (cases "map_of penv key")
    case None
    with True show ?thesis by (simp add: nagios_step_def)
  next
    case (Some v)
    with True have "map_of (nagios_step penv nag key) k =
       (if strip_prefix key = k \<and> strip_prefix key \<noteq> ''__proto__'' then Some v
        else map_of nag k)"
      by (simp only: nagios_step_def map_of_set_prop if_True option.case)
    also have "\<dots> = (if key = prefix @ k \<and> k \<noteq> ''__proto__'' then Some v else map_of nag k)"
      using sp by metis
    finally have eq: "map_of (nagios_step penv nag key) k =
       (if key = prefix @ k \<and> k \<noteq> ''__proto__'' then Some v else map_of nag k)" .
    show ?thesis unfolding eq using Some by auto
  qed
next
  case False
  then have "key \<noteq> prefix @ k" using starts_with_append by blast
  with False show ?thesis by (simp only: nagios_step_def if_False simp_thms)
qed

lemma map_of_foldl_nagios_step:
  "map_of (foldl (nagios_step penv) nag ks) k =
     (if prefix @ k \<in> set ks \<and> k \<noteq> ''__proto__'' \<and> map_of penv (prefix @ k) \<noteq> None
      then map_of penv (prefix @ k) else map_of nag k)"
proof (induction ks arbitrary: nag)
  case Nil
  show ?case by simp
next
  case (Cons key ks)
  show ?case unfolding foldl_Cons Cons.IH map_of_nagios_step by auto
qed

text \<open>
  Reading the snapshot: every key but \<^verbatim>\<open>__proto__\<close> holds what the environment holds
  under the prefixed name.
\<close>

lemma map_of_nagios_of:
  "map_of (nagios_of penv) k =
     (if k = ''__proto__'' then None else map_of penv (prefix @ k))"
proof -
  have "prefix @ k \<notin> set (map fst penv) \<Longrightarrow> map_of penv (prefix @ k) = None"
    by (simp add: map_of_eq_None_iff)
  then show ?thesis
    unfolding nagios_of_def map_of_foldl_nagios_step by auto
qed

lemma keys_nagios_of:
  "(k \<in> fst ` set (nagios_of penv)) = (k \<noteq> ''__proto__'' \<and> prefix @ k \<in> fst ` set penv)"
  using map_of_nagios_of [of penv k] map_of_eq_None_iff [of "nagios_of penv" k]
    map_of_eq_None_iff [of penv "prefix @ k"]
  by (auto split: if_splits)

lemma service_attempt_key:
  "(''SERVICEATTEMPT'' \<in> fst ` set (nagios_of penv)) =
   (map_of penv ''NAGIOS_SERVICEATTEMPT'' \<noteq> None)"
  by (simp add: keys_nagios_of prefix_def map_of_eq_None_iff)

lemma service_attempt_value:
  "map_of (nagios_of penv) ''SERVICEATTEMPT'' = map_of penv ''NAGIOS_SERVICEATTEMPT''"
  by (simp add: map_of_nagios_of prefix_def)

text \<open>
  C7. The snapshot holds a variable exactly when its name starts with \<^verbatim>\<open>NAGIOS_\<close>,
  under the name without the prefix. The script misses one name: the environment
  variable \<^verbatim>\<open>NAGIOS___proto__\<close> starts with the prefix, its stripped name is
  \<^verbatim>\<open>__proto__\<close>, and the snapshot built from it has no key at all, since the
  assignment \<^verbatim>\<open>nagios['__proto__'] = 'x'\<close> on an object literal creates no property.
\<close>

theorem C7_proto_variable_dropped:
  "''NAGIOS___proto__'' \<in> fst ` set [(''NAGIOS___proto__'', ''x'')]
   \<and> starts_with prefix ''NAGIOS___proto__''
   \<and> strip_prefix ''NAGIOS___proto__'' = ''__proto__''
   \<and> nagios_of [(''NAGIOS___proto__'', ''x'')] = []"
  by (simp add: nagios_of_def nagios_step_def starts_with_def prefix_def strip_prefix_def
      set_prop_def)

section \<open>The type of the alert\<close>

text \<open>
  C1. When the snapshot has no key \<^verbatim>\<open>SERVICEATTEMPT\<close>, which is when the environment has
  no variable \<^verbatim>\<open>NAGIOS_SERVICEATTEMPT\<close>, the type is \<^verbatim>\<open>host\<close>, whatever else the
  environment holds.
\<close>

theorem C1_host_without_service_attempt:
  assumes "''SERVICEATTEMPT'' \<notin> fst ` set (nagios_of penv)"
  shows "alert_type penv (nagios_of penv) = Some ''host''"
proof -
  from assms have "map_of penv ''NAGIOS_SERVICEATTEMPT'' = None"
    by (simp add: service_attempt_key)
  then show ?thesis by (simp add: alert_type_def truthy_def)
qed

theorem C1_witness:
  "''SERVICEATTEMPT'' \<notin> fst ` set (nagios_of
      [(''NAGIOS_NOTIFICATIONAUTHOR'', ''bob''), (''NAGIOS_HOSTSTATE'', ''DOWN'')])
   \<and> alert_type [(''NAGIOS_NOTIFICATIONAUTHOR'', ''bob''), (''NAGIOS_HOSTSTATE'', ''DOWN'')]
        (nagios_of [(''NAGIOS_NOTIFICATIONAUTHOR'', ''bob''), (''NAGIOS_HOSTSTATE'', ''DOWN'')])
       = Some ''host''"
proof -
  have h: "''SERVICEATTEMPT'' \<notin> fst ` set (nagios_of
      [(''NAGIOS_NOTIFICATIONAUTHOR'', ''bob''), (''NAGIOS_HOSTSTATE'', ''DOWN'')])"
    by (simp add: nagios_of_def nagios_step_def starts_with_def prefix_def strip_prefix_def
        set_prop_def)
  from h C1_host_without_service_attempt [OF h] show ?thesis by (rule conjI)
qed

text \<open>
  C2, as the claim states it, fails: with \<^verbatim>\<open>NAGIOS_SERVICEATTEMPT\<close> set to the empty
  string the snapshot has the key \<^verbatim>\<open>SERVICEATTEMPT\<close> and no key
  \<^verbatim>\<open>NOTIFICATIONAUTHOR\<close>, and the type is \<^verbatim>\<open>host\<close>, not \<^verbatim>\<open>service\<close>.
\<close>

theorem C2_counterexample:
  "''SERVICEATTEMPT'' \<in> fst ` set (nagios_of [(''NAGIOS_SERVICEATTEMPT'', [])])
   \<and> ''NOTIFICATIONAUTHOR'' \<notin> fst ` set (nagios_of [(''NAGIOS_SERVICEATTEMPT'', [])])
   \<and> alert_type [(''NAGIOS_SERVICEATTEMPT'', [])] (nagios_of [(''NAGIOS_SERVICEATTEMPT'', [])])
        = Some ''host''
   \<and> alert_type [(''NAGIOS_SERVICEATTEMPT'', [])] (nagios_of [(''NAGIOS_SERVICEATTEMPT'', [])])
        \<noteq> Some ''service''"
  by (simp add: nagios_of_def nagios_step_def starts_with_def prefix_def strip_prefix_def
      set_prop_def alert_type_def truthy_def)

text \<open>
  C2, amended. When the snapshot has a non-empty value under \<^verbatim>\<open>SERVICEATTEMPT\<close>, the type
  is \<^verbatim>\<open>ack\<close> (the acknowledgement type) if the snapshot has a non-empty value under
  \<^verbatim>\<open>NOTIFICATIONAUTHOR\<close>, and \<^verbatim>\<open>service\<close> otherwise, that is when the key
  \<^verbatim>\<open>NOTIFICATIONAUTHOR\<close> is absent or its value is empty.
\<close>

theorem C2_ack_or_service:
  assumes "truthy (map_of (nagios_of penv) ''SERVICEATTEMPT'')"
  shows "alert_type penv (nagios_of penv) =
           (if truthy (map_of (nagios_of penv) ''NOTIFICATIONAUTHOR'') then Some ''ack''
            else Some ''service'')"
proof -
  from assms have "truthy (map_of penv ''NAGIOS_SERVICEATTEMPT'')"
    by (simp add: service_attempt_value)
  then show ?thesis by (simp add: alert_type_def)
qed

theorem C2_witness:
  "truthy (map_of (nagios_of [(''NAGIOS_SERVICEATTEMPT'', ''1''), (''NAGIOS_NOTIFICATIONAUTHOR'', ''bob'')])
      ''SERVICEATTEMPT'')
   \<and> alert_type [(''NAGIOS_SERVICEATTEMPT'', ''1''), (''NAGIOS_NOTIFICATIONAUTHOR'', ''bob'')]
        (nagios_of [(''NAGIOS_SERVICEATTEMPT'', ''1''), (''NAGIOS_NOTIFICATIONAUTHOR'', ''bob'')])
       = Some ''ack''
   \<and> truthy (map_of (nagios_of [(''NAGIOS_SERVICEATTEMPT'', ''3''), (''NAGIOS_SERVICESTATE'', ''CRITICAL'')])
      ''SERVICEATTEMPT'')
   \<and> alert_type [(''NAGIOS_SERVICEATTEMPT'', ''3''), (''NAGIOS_SERVICESTATE'', ''CRITICAL'')]
        (nagios_of [(''NAGIOS_SERVICEATTEMPT'', ''3''), (''NAGIOS_SERVICESTATE'', ''CRITICAL'')])
       = Some ''service''
   \<and> truthy (map_of (nagios_of [(''NAGIOS_SERVICEATTEMPT'', ''2''), (''NAGIOS_NOTIFICATIONAUTHOR'', [])])
      ''SERVICEATTEMPT'')
   \<and> alert_type [(''NAGIOS_SERVICEATTEMPT'', ''2''), (''NAGIOS_NOTIFICATIONAUTHOR'', [])]
        (nagios_of [(''NAGIOS_SERVICEATTEMPT'', ''2''), (''NAGIOS_NOTIFICATIONAUTHOR'', [])])
       = Some ''service''"
proof -
  let ?e1 = "[(''NAGIOS_SERVICEATTEMPT'', ''1''), (''NAGIOS_NOTIFICATIONAUTHOR'', ''bob'')]"
  let ?e2 = "[(''NAGIOS_SERVICEATTEMPT'', ''3''), (''NAGIOS_SERVICESTATE'', ''CRITICAL'')]"
  let ?e3 = "[(''NAGIOS_SERVICEATTEMPT'', ''2''), (''NAGIOS_NOTIFICATIONAUTHOR'', [])]"
  have n1: "nagios_of ?e1 = [(''SERVICEATTEMPT'', ''1''), (''NOTIFICATIONAUTHOR'', ''bob'')]"
    and n2: "nagios_of ?e2 = [(''SERVICEATTEMPT'', ''3''), (''SERVICESTATE'', ''CRITICAL'')]"
    and n3: "nagios_of ?e3 = [(''SERVICEATTEMPT'', ''2''), (''NOTIFICATIONAUTHOR'', [])]"
    by (simp_all add: nagios_of_def nagios_step_def starts_with_def prefix_def strip_prefix_def
        set_prop_def)
  have a1: "truthy (map_of (nagios_of ?e1) ''SERVICEATTEMPT'')"
    and a2: "truthy (map_of (nagios_of ?e2) ''SERVICEATTEMPT'')"
    and a3: "truthy (map_of (nagios_of ?e3) ''SERVICEATTEMPT'')"
    unfolding n1 n2 n3 by (simp_all add: truthy_def)
  have c1: "alert_type ?e1 (nagios_of ?e1) = Some ''ack''"
    using C2_ack_or_service [OF a1] unfolding n1 by (simp add: truthy_def)
  have c2: "alert_type ?e2 (nagios_of ?e2) = Some ''service''"
    using C2_ack_or_service [OF a2] unfolding n2 by (simp add: truthy_def)
  have c3: "alert_type ?e3 (nagios_of ?e3) = Some ''service''"
    using C2_ack_or_service [OF a3] unfolding n3 by (simp add: truthy_def)
  from a1 c1 a2 c2 a3 c3 show ?thesis by (intro conjI)
qed

text \<open>
  C10. The test is on the value of \<^verbatim>\<open>NAGIOS_SERVICEATTEMPT\<close>, not on its presence: when
  the variable is set to the empty string, the snapshot has the key \<^verbatim>\<open>SERVICEATTEMPT\<close>
  and the type is \<^verbatim>\<open>host\<close>, as it is for the same environment without the variable.
\<close>

theorem C10_empty_service_attempt_is_host:
  assumes "map_of penv ''NAGIOS_SERVICEATTEMPT'' = Some []"
  shows "''SERVICEATTEMPT'' \<in> fst ` set (nagios_of penv)
       \<and> alert_type penv (nagios_of penv) = Some ''host''
       \<and> alert_type (AList.delete ''NAGIOS_SERVICEATTEMPT'' penv)
           (nagios_of (AList.delete ''NAGIOS_SERVICEATTEMPT'' penv)) = Some ''host''"
  using assms
  by (simp add: service_attempt_key alert_type_def truthy_def delete_conv')

theorem C10_witness:
  "map_of [(''NAGIOS_NOTIFICATIONAUTHOR'', ''bob''), (''NAGIOS_SERVICEATTEMPT'', [])]
      ''NAGIOS_SERVICEATTEMPT'' = Some []
   \<and> ''SERVICEATTEMPT'' \<in> fst ` set
        (nagios_of [(''NAGIOS_NOTIFICATIONAUTHOR'', ''bob''), (''NAGIOS_SERVICEATTEMPT'', [])])
   \<and> alert_type [(''NAGIOS_NOTIFICATIONAUTHOR'', ''bob''), (''NAGIOS_SERVICEATTEMPT'', [])]
        (nagios_of [(''NAGIOS_NOTIFICATIONAUTHOR'', ''bob''), (''NAGIOS_SERVICEATTEMPT'', [])])
       = Some ''host''"
proof -
  have h: "map_of [(''NAGIOS_NOTIFICATIONAUTHOR'', ''bob''), (''NAGIOS_SERVICEATTEMPT'', [])]
      ''NAGIOS_SERVICEATTEMPT'' = Some []"
    by simp
  from h C10_empty_service_attempt_is_host [OF h] show ?thesis by simp
qed

section \<open>The option loop and the run after it\<close>

lemma getopt_loop_append:
  "getopt_loop w (xs @ ys) os =
     (case getopt_loop w xs os of Inl r \<Rightarrow> Inl r | Inr os' \<Rightarrow> getopt_loop w ys os')"
proof (induction w xs os rule: getopt_loop.induct)
qed (simp_all split: prod.splits)

lemma getopt_loop_keeps_to:
  "getopt_loop w gs os = Inr os' \<Longrightarrow> \<forall>b. Opt_a b \<notin> set gs \<Longrightarrow> to os' = to os"
proof (induction w gs os rule: getopt_loop.induct)
qed (auto split: prod.splits)

lemma getopt_loop_keeps_templatedir:
  "getopt_loop w gs os = Inr os' \<Longrightarrow> \<forall>u. Opt_t u \<notin> set gs \<Longrightarrow> templatedir os' = templatedir os"
proof (induction w gs os rule: getopt_loop.induct)
qed (auto split: prod.splits)

lemma getopt_loop_last_to:
  assumes "getopt_loop w (pre @ Opt_a a # post) os = Inr os'"
      and "\<forall>b. Opt_a b \<notin> set post"
  shows "to os' = Some a"
proof -
  from assms(1) obtain os1 where "getopt_loop w pre os = Inr os1"
    and 2: "getopt_loop w post (os1\<lparr>to := Some a\<rparr>) = Inr os'"
    by (auto simp: getopt_loop_append split: sum.splits)
  from getopt_loop_keeps_to [OF 2 assms(2)] show ?thesis by simp
qed

lemma getopt_loop_last_templatedir:
  assumes "getopt_loop w (pre @ Opt_t t # post) os = Inr os'"
      and "\<forall>u. Opt_t u \<notin> set post"
  shows "templatedir os' = t"
proof -
  from assms(1) obtain os1 where "getopt_loop w pre os = Inr os1"
    and 2: "getopt_loop w post (os1\<lparr>templatedir := t\<rparr>) = Inr os'"
    by (auto simp: getopt_loop_append split: sum.splits)
  from getopt_loop_keeps_templatedir [OF 2 assms(2)] show ?thesis by simp
qed

lemma getopt_loop_error:
  "Opt_h \<notin> set gs \<Longrightarrow> Opt_u \<notin> set gs \<Longrightarrow> Opt_v \<notin> set gs \<Longrightarrow> getopt_loop w gs os = Inl r \<Longrightarrow>
   r = \<lparr>stdout = [], stderr = [usage], exit_code = 1\<rparr>"
proof (induction w gs os rule: getopt_loop.induct)
qed auto

lemma last_address_flag:
  assumes "\<exists>a. Opt_a a \<in> set gs"
  shows "\<exists>pre a post. gs = pre @ Opt_a a # post \<and> (\<forall>b. Opt_a b \<notin> set post)"
proof -
  from assms have "\<exists>g\<in>set gs. \<exists>a. g = Opt_a a" by blast
  from split_list_last_prop [OF this]
  obtain pre g post where "gs = pre @ g # post" "\<exists>a. g = Opt_a a"
    "\<forall>z\<in>set post. \<not> (\<exists>a. z = Opt_a a)"
    by blast
  then show ?thesis by blast
qed

lemma getopt_loop_subject:
  "\<forall>s. Opt_s s \<notin> set gs \<Longrightarrow> getopt_loop w gs os = Inr os' \<Longrightarrow> subject os' = subject os"
proof (induction w gs os rule: getopt_loop.induct)
qed (auto split: prod.splits)

lemma getopt_loop_stderr:
  "getopt_loop w gs os = Inl r \<Longrightarrow> set (stderr r) \<subseteq> {usage}"
proof (induction w gs os rule: getopt_loop.induct)
qed (auto split: prod.splits)

lemma truthy_alert_type: "truthy (alert_type penv nag)"
  by (simp add: alert_type_def truthy_def)

lemma body_emit:
  "truthy (to os) \<Longrightarrow>
   body w os = emit w os (alert_type (process_env w) (nagios_of (process_env w))) (data0 w)"
  by (simp add: body_def Let_def truthy_alert_type data0_def)

lemma main_emit:
  "getopt_loop w (getopt_results w) (opts0 w) = Inr os \<Longrightarrow> truthy (to os) \<Longrightarrow>
   main w = emit w os (alert_type (process_env w) (nagios_of (process_env w))) (data0 w)"
  by (simp add: main_def body_emit)

lemma stdout_emit:
  "stdout (emit w os ty dat) =
     headers (with_subject os ty dat) @
     [format_s (fst (render_message w (with_subject os ty dat) ty dat))]"
  by (simp add: emit_def Let_def split: prod.splits)

lemma stderr_emit:
  "stderr (emit w os ty dat) = snd (render_message w (with_subject os ty dat) ty dat)"
  by (simp add: emit_def Let_def split: prod.splits)

lemma exit_code_emit: "exit_code (emit w os ty dat) = 0"
  by (simp add: emit_def Let_def split: prod.splits)

lemma to_with_subject: "to (with_subject os ty dat) = to os"
  by (simp add: with_subject_def)

lemma subject_with_subject:
  "\<not> truthy (subject os) \<Longrightarrow> subject (with_subject os ty dat) = Some (default_subject ty dat)"
  by (simp add: with_subject_def)

lemma subject_line_emit:
  "stdout (emit w os ty dat) ! 2 = ''Subject: '' @ format_s (subject (with_subject os ty dat))"
  by (simp add: stdout_emit headers_def)

lemma nagios_data0: "nagios (data0 w) = nagios_of (process_env w)"
  by (simp add: data0_def)

lemmas sample_simps =
  sample_world_def sample_path_join_def sample_json_stringify_def sample_ejs_render_def
  sample_ejs_broken_def
  sample_readFileSync_def sample_checkupdate_def

lemmas script_simps =
  main_def opts0_def body_def data0_def emit_def with_subject_def headers_def
  render_message_def render_default_def render_file_def with_d_def templfile_def
  default_subject_def alert_type_def truthy_def format_s_def templ_def
  nagios_of_def nagios_step_def starts_with_def prefix_def strip_prefix_def set_prop_def
  Let_def

section \<open>The recipient\<close>

text \<open>
  C3, as the claim states it, fails: with no \<^verbatim>\<open>-a\<close> flag and no
  \<^verbatim>\<open>NAGIOS_CONTACTEMAIL\<close> but with the flag \<^verbatim>\<open>-h\<close>, the option loop prints the usage
  text on standard output and exits with status 0 before the recipient is looked at.
\<close>

theorem C3_counterexample:
  "map_of (process_env (sample_world [] [Opt_h])) ''NAGIOS_CONTACTEMAIL'' = None
   \<and> getopt_results (sample_world [] [Opt_h]) = [Opt_h]
   \<and> exit_code (main (sample_world [] [Opt_h])) = 0
   \<and> stdout (main (sample_world [] [Opt_h])) = [usage]
   \<and> stderr (main (sample_world [] [Opt_h])) = []"
  by (simp add: sample_world_def main_def)

text \<open>
  C3, amended. When none of the options \<^verbatim>\<open>-h\<close>, \<^verbatim>\<open>-u\<close>, \<^verbatim>\<open>-v\<close> is given and no
  non-empty recipient is supplied, the run exits with status 1, the usage text is on the
  error stream and nothing is on standard output. No non-empty recipient is supplied
  when the argument of the last \<^verbatim>\<open>-a\<close> flag is empty or, without any \<^verbatim>\<open>-a\<close> flag,
  \<^verbatim>\<open>NAGIOS_CONTACTEMAIL\<close> is absent or empty.
\<close>

theorem C3_missing_recipient:
  assumes "Opt_h \<notin> set (getopt_results w)"
      and "Opt_u \<notin> set (getopt_results w)"
      and "Opt_v \<notin> set (getopt_results w)"
      and "(\<forall>a. Opt_a a \<notin> set (getopt_results w)) \<longrightarrow>
             \<not> truthy (map_of (process_env w) ''NAGIOS_CONTACTEMAIL'')"
      and "\<forall>pre a post. getopt_results w = pre @ Opt_a a # post \<and> (\<forall>b. Opt_a b \<notin> set post)
             \<longrightarrow> a = []"
  shows "exit_code (main w) = 1 \<and> usage \<in> set (stderr (main w)) \<and> stdout (main w) = []"
proof (cases "getopt_loop w (getopt_results w) (opts0 w)")
  case (Inl r)
  from getopt_loop_error [OF assms(1-3) Inl] Inl show ?thesis by (simp add: main_def)
next
  case (Inr os')
  have "\<not> truthy (to os')"
  proof (cases "\<exists>a. Opt_a a \<in> set (getopt_results w)")
    case False
    with getopt_loop_keeps_to [OF Inr] have "to os' = to (opts0 w)" by blast
    with False assms(4) show ?thesis by (simp add: opts0_def)
  next
    case True
    from last_address_flag [OF True] obtain pre a post
      where gs: "getopt_results w = pre @ Opt_a a # post" and post: "\<forall>b. Opt_a b \<notin> set post"
      by blast
    with assms(5) have "a = []" by blast
    moreover from Inr gs have "getopt_loop w (pre @ Opt_a a # post) (opts0 w) = Inr os'" by simp
    from getopt_loop_last_to [OF this post] have "to os' = Some a" .
    ultimately show ?thesis by (simp add: truthy_def)
  qed
  then have "body w os' = to_missing"
    by (simp add: body_def Let_def truthy_alert_type)
  with Inr show ?thesis by (simp add: main_def to_missing_def)
qed

theorem C3_witness:
  "exit_code (main (sample_world [(''NAGIOS_CONTACTEMAIL'', ''a@b.com'')] [Opt_s ''hello'', Opt_a []])) = 1
   \<and> usage \<in> set (stderr (main (sample_world [(''NAGIOS_CONTACTEMAIL'', ''a@b.com'')]
        [Opt_s ''hello'', Opt_a []])))
   \<and> stdout (main (sample_world [(''NAGIOS_CONTACTEMAIL'', ''a@b.com'')]
        [Opt_s ''hello'', Opt_a []])) = []
   \<and> \<not> truthy (map_of (process_env (sample_world [(''NAGIOS_HOSTSTATE'', ''DOWN'')] [Opt_s ''hello'']))
         ''NAGIOS_CONTACTEMAIL'')
   \<and> exit_code (main (sample_world [(''NAGIOS_HOSTSTATE'', ''DOWN'')] [Opt_s ''hello''])) = 1
   \<and> usage \<in> set (stderr (main (sample_world [(''NAGIOS_HOSTSTATE'', ''DOWN'')] [Opt_s ''hello''])))
   \<and> stdout (main (sample_world [(''NAGIOS_HOSTSTATE'', ''DOWN'')] [Opt_s ''hello''])) = []"
proof -
  let ?w1 = "sample_world [(''NAGIOS_CONTACTEMAIL'', ''a@b.com'')] [Opt_s ''hello'', Opt_a []]"
  let ?w2 = "sample_world [(''NAGIOS_HOSTSTATE'', ''DOWN'')] [Opt_s ''hello'']"
  have g1: "getopt_results ?w1 = [Opt_s ''hello'', Opt_a []]"
    and g2: "getopt_results ?w2 = [Opt_s ''hello'']"
    by (simp_all add: sample_world_def)
  have h1: "Opt_h \<notin> set (getopt_results ?w1)" "Opt_u \<notin> set (getopt_results ?w1)"
    "Opt_v \<notin> set (getopt_results ?w1)"
    and h2: "Opt_h \<notin> set (getopt_results ?w2)" "Opt_u \<notin> set (getopt_results ?w2)"
    "Opt_v \<notin> set (getopt_results ?w2)"
    unfolding g1 g2 by simp_all
  have e1: "(\<forall>a. Opt_a a \<notin> set (getopt_results ?w1)) \<longrightarrow>
      \<not> truthy (map_of (process_env ?w1) ''NAGIOS_CONTACTEMAIL'')"
    unfolding g1 by simp
  have e2: "\<not> truthy (map_of (process_env ?w2) ''NAGIOS_CONTACTEMAIL'')"
    by (simp add: sample_world_def truthy_def)
  have f1: "\<forall>pre a post. getopt_results ?w1 = pre @ Opt_a a # post
      \<and> (\<forall>b. Opt_a b \<notin> set post) \<longrightarrow> a = []"
    unfolding g1 by (auto simp: Cons_eq_append_conv)
  have f2: "\<forall>pre a post. getopt_results ?w2 = pre @ Opt_a a # post
      \<and> (\<forall>b. Opt_a b \<notin> set post) \<longrightarrow> a = []"
    unfolding g2 by (auto simp: Cons_eq_append_conv)
  from C3_missing_recipient [OF h1 e1 f1] C3_missing_recipient [OF h2 _ f2] e2
  show ?thesis by blast
qed

section \<open>The emitted message\<close>

text \<open>
  C6. A run that gets through the option loop with a non-empty address writes six lines
  to standard output and nothing else: \<^verbatim>\<open>To\<close> and \<^verbatim>\<open>Reply-To\<close> with the same address, the
  subject, the content type, an empty line and the message; it ends with status 0.
\<close>

theorem C6_output_layout:
  assumes "getopt_loop w (getopt_results w) (opts0 w) = Inr os"
      and "to os = Some addr" and "addr \<noteq> []"
  shows "stdout (main w) =
           [''To: '' @ addr,
            ''Reply-To: '' @ addr,
            ''Subject: '' @ format_s (subject (with_subject os
                (alert_type (process_env w) (nagios_of (process_env w))) (data0 w))),
            ''Content-Type: text/html'',
            [],
            format_s (fst (render_message w
                (with_subject os (alert_type (process_env w) (nagios_of (process_env w))) (data0 w))
                (alert_type (process_env w) (nagios_of (process_env w))) (data0 w)))]
       \<and> exit_code (main w) = 0"
proof -
  from assms(2,3) have "truthy (to os)" by (simp add: truthy_def)
  from main_emit [OF assms(1) this] assms(2) show ?thesis
    by (simp add: stdout_emit exit_code_emit headers_def to_with_subject format_s_def)
qed

theorem C6_witness:
  "getopt_loop (sample_world [(''NAGIOS_HOSTADDRESS'', ''web1'')] [Opt_a ''a@b.com'', Opt_s ''hello''])
     (getopt_results (sample_world [(''NAGIOS_HOSTADDRESS'', ''web1'')] [Opt_a ''a@b.com'', Opt_s ''hello'']))
     (opts0 (sample_world [(''NAGIOS_HOSTADDRESS'', ''web1'')] [Opt_a ''a@b.com'', Opt_s ''hello'']))
     = Inr \<lparr>subject = Some ''hello'', templatedir = ''/opt/templates'', to = Some ''a@b.com''\<rparr>
   \<and> stdout (main (sample_world [(''NAGIOS_HOSTADDRESS'', ''web1'')] [Opt_a ''a@b.com'', Opt_s ''hello'']))
     = [''To: a@b.com'', ''Reply-To: a@b.com'', ''Subject: hello'', ''Content-Type: text/html'', [],
        ''<h1>host alert</h1>'']
   \<and> exit_code (main (sample_world [(''NAGIOS_HOSTADDRESS'', ''web1'')] [Opt_a ''a@b.com'', Opt_s ''hello''])) = 0"
proof -
  let ?w = "sample_world [(''NAGIOS_HOSTADDRESS'', ''web1'')] [Opt_a ''a@b.com'', Opt_s ''hello'']"
  let ?os = "\<lparr>subject = Some ''hello'', templatedir = ''/opt/templates'', to = Some ''a@b.com''\<rparr>"
  have run: "getopt_loop ?w (getopt_results ?w) (opts0 ?w) = Inr ?os"
    by (simp add: sample_simps opts0_def)
  have addr: "to ?os = Some ''a@b.com''" "''a@b.com'' \<noteq> []" by simp_all
  from C6_output_layout [OF run addr] run show ?thesis
    by (simp add: sample_simps script_simps)
qed

text \<open>
  C5. Without a \<^verbatim>\<open>-s\<close> flag the \<^verbatim>\<open>Subject\<close> line is built from the snapshot by type:
  \<^verbatim>\<open>HOSTADDRESS is HOSTSTATE\<close> for a host alert,
  \<^verbatim>\<open>SERVICESTATE: HOSTADDRESS - SERVICEDESC\<close> for a service alert and
  \<^verbatim>\<open>NOTIFICATIONTYPE: HOSTADDRESS - SERVICEDESC\<close> for an acknowledgement (type \<^verbatim>\<open>ack\<close>),
  each value as \<^verbatim>\<open>%s\<close> prints it. The two examples of the specification follow.
\<close>

theorem C5_default_subject:
  assumes "getopt_loop w (getopt_results w) (opts0 w) = Inr os"
      and "truthy (to os)"
      and "\<forall>s. Opt_s s \<notin> set (getopt_results w)"
  shows "(alert_type (process_env w) (nagios_of (process_env w)) = Some ''host'' \<longrightarrow>
            stdout (main w) ! 2 = ''Subject: '' @
              format_s (map_of (nagios_of (process_env w)) ''HOSTADDRESS'') @ '' is '' @
              format_s (map_of (nagios_of (process_env w)) ''HOSTSTATE''))
       \<and> (alert_type (process_env w) (nagios_of (process_env w)) = Some ''service'' \<longrightarrow>
            stdout (main w) ! 2 = ''Subject: '' @
              format_s (map_of (nagios_of (process_env w)) ''SERVICESTATE'') @ '': '' @
              format_s (map_of (nagios_of (process_env w)) ''HOSTADDRESS'') @ '' - '' @
              format_s (map_of (nagios_of (process_env w)) ''SERVICEDESC''))
       \<and> (alert_type (process_env w) (nagios_of (process_env w)) = Some ''ack'' \<longrightarrow>
            stdout (main w) ! 2 = ''Subject: '' @
              format_s (map_of (nagios_of (process_env w)) ''NOTIFICATIONTYPE'') @ '': '' @
              format_s (map_of (nagios_of (process_env w)) ''HOSTADDRESS'') @ '' - '' @
              format_s (map_of (nagios_of (process_env w)) ''SERVICEDESC''))
       \<and> (map_of (process_env w) ''NAGIOS_SERVICEATTEMPT'' = None
          \<and> map_of (process_env w) ''NAGIOS_HOSTADDRESS'' = Some ''web1''
          \<and> map_of (process_env w) ''NAGIOS_HOSTSTATE'' = Some ''DOWN'' \<longrightarrow>
            stdout (main w) ! 2 = ''Subject: web1 is DOWN'')
       \<and> (map_of (process_env w) ''NAGIOS_SERVICEATTEMPT'' = Some ''1''
          \<and> map_of (process_env w) ''NAGIOS_SERVICESTATE'' = Some ''CRITICAL''
          \<and> map_of (process_env w) ''NAGIOS_HOSTADDRESS'' = Some ''web1''
          \<and> map_of (process_env w) ''NAGIOS_SERVICEDESC'' = Some ''disk''
          \<and> map_of (process_env w) ''NAGIOS_NOTIFICATIONAUTHOR'' = None \<longrightarrow>
            stdout (main w) ! 2 = ''Subject: CRITICAL: web1 - disk'')"
proof -
  let ?nag = "nagios_of (process_env w)"
  let ?ty = "alert_type (process_env w) ?nag"
  from getopt_loop_subject [OF assms(3,1)] have "subject os = None" by (simp add: opts0_def)
  then have "\<not> truthy (subject os)" by (simp add: truthy_def)
  then have line: "stdout (main w) ! 2 = ''Subject: '' @ default_subject ?ty (data0 w)"
    by (simp add: main_emit [OF assms(1,2)] subject_line_emit subject_with_subject format_s_def)
  have host: "?ty = Some ''host'' \<Longrightarrow> default_subject ?ty (data0 w) =
      format_s (map_of ?nag ''HOSTADDRESS'') @ '' is '' @ format_s (map_of ?nag ''HOSTSTATE'')"
    by (simp add: default_subject_def nagios_data0)
  have service: "?ty = Some ''service'' \<Longrightarrow> default_subject ?ty (data0 w) =
      format_s (map_of ?nag ''SERVICESTATE'') @ '': '' @
      format_s (map_of ?nag ''HOSTADDRESS'') @ '' - '' @ format_s (map_of ?nag ''SERVICEDESC'')"
    by (simp add: default_subject_def nagios_data0)
  have ack: "?ty = Some ''ack'' \<Longrightarrow> default_subject ?ty (data0 w) =
      format_s (map_of ?nag ''NOTIFICATIONTYPE'') @ '': '' @
      format_s (map_of ?nag ''HOSTADDRESS'') @ '' - '' @ format_s (map_of ?nag ''SERVICEDESC'')"
    by (simp add: default_subject_def nagios_data0)
  have ex1: "map_of (process_env w) ''NAGIOS_SERVICEATTEMPT'' = None
          \<and> map_of (process_env w) ''NAGIOS_HOSTADDRESS'' = Some ''web1''
          \<and> map_of (process_env w) ''NAGIOS_HOSTSTATE'' = Some ''DOWN''
     \<Longrightarrow> default_subject ?ty (data0 w) = ''web1 is DOWN''"
    by (simp add: default_subject_def nagios_data0 alert_type_def truthy_def
        map_of_nagios_of prefix_def format_s_def)
  have ex2: "map_of (process_env w) ''NAGIOS_SERVICEATTEMPT'' = Some ''1''
          \<and> map_of (process_env w) ''NAGIOS_SERVICESTATE'' = Some ''CRITICAL''
          \<and> map_of (process_env w) ''NAGIOS_HOSTADDRESS'' = Some ''web1''
          \<and> map_of (process_env w) ''NAGIOS_SERVICEDESC'' = Some ''disk''
          \<and> map_of (process_env w) ''NAGIOS_NOTIFICATIONAUTHOR'' = None
     \<Longrightarrow> default_subject ?ty (data0 w) = ''CRITICAL: web1 - disk''"
    by (simp add: default_subject_def nagios_data0 alert_type_def truthy_def
        map_of_nagios_of prefix_def format_s_def)
  show ?thesis
    unfolding line using host service ack ex1 ex2 by (intro conjI impI) simp_all
qed

theorem C5_witness:
  "stdout (main (sample_world [(''NAGIOS_CONTACTEMAIL'', ''a@b.com''),
      (''NAGIOS_HOSTADDRESS'', ''web1''), (''NAGIOS_HOSTSTATE'', ''DOWN'')] [])) ! 2
     = ''Subject: web1 is DOWN''
   \<and> stdout (main (sample_world [(''NAGIOS_CONTACTEMAIL'', ''a@b.com''),
      (''NAGIOS_SERVICEATTEMPT'', ''1''), (''NAGIOS_SERVICESTATE'', ''CRITICAL''),
      (''NAGIOS_HOSTADDRESS'', ''web1''), (''NAGIOS_SERVICEDESC'', ''disk'')] [])) ! 2
     = ''Subject: CRITICAL: web1 - disk''"
proof -
  let ?w1 = "sample_world [(''NAGIOS_CONTACTEMAIL'', ''a@b.com''),
      (''NAGIOS_HOSTADDRESS'', ''web1''), (''NAGIOS_HOSTSTATE'', ''DOWN'')] []"
  let ?w2 = "sample_world [(''NAGIOS_CONTACTEMAIL'', ''a@b.com''),
      (''NAGIOS_SERVICEATTEMPT'', ''1''), (''NAGIOS_SERVICESTATE'', ''CRITICAL''),
      (''NAGIOS_HOSTADDRESS'', ''web1''), (''NAGIOS_SERVICEDESC'', ''disk'')] []"
  let ?os = "\<lparr>subject = None, templatedir = ''/opt/templates'', to = Some ''a@b.com''\<rparr>"
  have r1: "getopt_loop ?w1 (getopt_results ?w1) (opts0 ?w1) = Inr ?os"
    and r2: "getopt_loop ?w2 (getopt_results ?w2) (opts0 ?w2) = Inr ?os"
    by (simp_all add: sample_simps opts0_def)
  have t: "truthy (to ?os)" by (simp add: truthy_def)
  have n1: "\<forall>s. Opt_s s \<notin> set (getopt_results ?w1)"
    and n2: "\<forall>s. Opt_s s \<notin> set (getopt_results ?w2)"
    by (simp_all add: sample_world_def)
  have e1: "map_of (process_env ?w1) ''NAGIOS_SERVICEATTEMPT'' = None
          \<and> map_of (process_env ?w1) ''NAGIOS_HOSTADDRESS'' = Some ''web1''
          \<and> map_of (process_env ?w1) ''NAGIOS_HOSTSTATE'' = Some ''DOWN''"
    by (simp add: sample_world_def)
  have e2: "map_of (process_env ?w2) ''NAGIOS_SERVICEATTEMPT'' = Some ''1''
          \<and> map_of (process_env ?w2) ''NAGIOS_SERVICESTATE'' = Some ''CRITICAL''
          \<and> map_of (process_env ?w2) ''NAGIOS_HOSTADDRESS'' = Some ''web1''
          \<and> map_of (process_env ?w2) ''NAGIOS_SERVICEDESC'' = Some ''disk''
          \<and> map_of (process_env ?w2) ''NAGIOS_NOTIFICATIONAUTHOR'' = None"
    by (simp add: sample_world_def)
  from C5_default_subject [OF r1 t n1] e1
  have c1: "stdout (main ?w1) ! 2 = ''Subject: web1 is DOWN''" by blast
  from C5_default_subject [OF r2 t n2] e2
  have c2: "stdout (main ?w2) ! 2 = ''Subject: CRITICAL: web1 - disk''" by blast
  from c1 c2 show ?thesis by (rule conjI)
qed

text \<open>
  C9, as the claim states it, fails: a key missing from the snapshot is not rendered as
  empty text. With only \<^verbatim>\<open>NAGIOS_CONTACTEMAIL\<close> set, the subject of the host alert is
  \<^verbatim>\<open>undefined is undefined\<close>.
\<close>

theorem C9_counterexample:
  "''HOSTADDRESS'' \<notin> fst ` set (nagios (data0 (sample_world [(''NAGIOS_CONTACTEMAIL'', ''a@b.com'')] [])))
   \<and> ''HOSTSTATE'' \<notin> fst ` set (nagios (data0 (sample_world [(''NAGIOS_CONTACTEMAIL'', ''a@b.com'')] [])))
   \<and> stdout (main (sample_world [(''NAGIOS_CONTACTEMAIL'', ''a@b.com'')] [])) ! 2
       = ''Subject: undefined is undefined''
   \<and> stdout (main (sample_world [(''NAGIOS_CONTACTEMAIL'', ''a@b.com'')] [])) ! 2
       \<noteq> ''Subject:  is ''"
  by (simp add: sample_simps script_simps)

text \<open>
  C9, amended. Building the default subject does not fail when keys are missing: the run
  ends with status 0, the \<^verbatim>\<open>Subject\<close> line holds the default subject of the type, and in
  it every key that the snapshot lacks is rendered as the text \<^verbatim>\<open>undefined\<close>.
\<close>

theorem C9_missing_keys_render_undefined:
  assumes "getopt_loop w (getopt_results w) (opts0 w) = Inr os"
      and "truthy (to os)"
      and "\<forall>s. Opt_s s \<notin> set (getopt_results w)"
  shows "exit_code (main w) = 0
       \<and> stdout (main w) ! 2 = ''Subject: '' @
           default_subject (alert_type (process_env w) (nagios (data0 w))) (data0 w)
       \<and> default_subject (Some ''host'') (data0 w) =
           format_s (map_of (nagios (data0 w)) ''HOSTADDRESS'') @ '' is '' @
           format_s (map_of (nagios (data0 w)) ''HOSTSTATE'')
       \<and> default_subject (Some ''service'') (data0 w) =
           format_s (map_of (nagios (data0 w)) ''SERVICESTATE'') @ '': '' @
           format_s (map_of (nagios (data0 w)) ''HOSTADDRESS'') @ '' - '' @
           format_s (map_of (nagios (data0 w)) ''SERVICEDESC'')
       \<and> default_subject (Some ''ack'') (data0 w) =
           format_s (map_of (nagios (data0 w)) ''NOTIFICATIONTYPE'') @ '': '' @
           format_s (map_of (nagios (data0 w)) ''HOSTADDRESS'') @ '' - '' @
           format_s (map_of (nagios (data0 w)) ''SERVICEDESC'')
       \<and> (\<forall>k. k \<notin> fst ` set (nagios (data0 w)) \<longrightarrow>
             format_s (map_of (nagios (data0 w)) k) = ''undefined'')"
proof -
  from getopt_loop_subject [OF assms(3,1)] have "subject os = None" by (simp add: opts0_def)
  then have "\<not> truthy (subject os)" by (simp add: truthy_def)
  then have line: "stdout (main w) ! 2 = ''Subject: '' @
      default_subject (alert_type (process_env w) (nagios (data0 w))) (data0 w)"
    by (simp add: main_emit [OF assms(1,2)] subject_line_emit subject_with_subject format_s_def
        nagios_data0)
  have exit: "exit_code (main w) = 0"
    by (simp add: main_emit [OF assms(1,2)] exit_code_emit)
  have undef: "\<forall>k. k \<notin> fst ` set (nagios (data0 w)) \<longrightarrow>
      format_s (map_of (nagios (data0 w)) k) = ''undefined''"
    by (simp add: map_of_eq_None_iff [symmetric] format_s_def)
  from exit line undef show ?thesis
    by (simp add: default_subject_def)
qed

theorem C9_witness:
  "exit_code (main (sample_world [(''NAGIOS_CONTACTEMAIL'', ''a@b.com''),
      (''NAGIOS_SERVICEATTEMPT'', ''1''), (''NAGIOS_HOSTADDRESS'', ''web1'')] [])) = 0
   \<and> ''SERVICESTATE'' \<notin> fst ` set (nagios (data0 (sample_world [(''NAGIOS_CONTACTEMAIL'', ''a@b.com''),
      (''NAGIOS_SERVICEATTEMPT'', ''1''), (''NAGIOS_HOSTADDRESS'', ''web1'')] [])))
   \<and> stdout (main (sample_world [(''NAGIOS_CONTACTEMAIL'', ''a@b.com''),
      (''NAGIOS_SERVICEATTEMPT'', ''1''), (''NAGIOS_HOSTADDRESS'', ''web1'')] [])) ! 2
       = ''Subject: undefined: web1 - undefined''"
proof -
  let ?w = "sample_world [(''NAGIOS_CONTACTEMAIL'', ''a@b.com''),
      (''NAGIOS_SERVICEATTEMPT'', ''1''), (''NAGIOS_HOSTADDRESS'', ''web1'')] []"
  let ?os = "\<lparr>subject = None, templatedir = ''/opt/templates'', to = Some ''a@b.com''\<rparr>"
  have r: "getopt_loop ?w (getopt_results ?w) (opts0 ?w) = Inr ?os"
    by (simp add: sample_simps opts0_def)
  have t: "truthy (to ?os)" by (simp add: truthy_def)
  have n: "\<forall>s. Opt_s s \<notin> set (getopt_results ?w)" by (simp add: sample_world_def)
  have ty: "alert_type (process_env ?w) (nagios (data0 ?w)) = Some ''service''"
    by (simp add: sample_simps script_simps)
  have nag: "nagios (data0 ?w) =
      [(''CONTACTEMAIL'', ''a@b.com''), (''SERVICEATTEMPT'', ''1''), (''HOSTADDRESS'', ''web1'')]"
    by (simp add: sample_simps script_simps)
  note th = C9_missing_keys_render_undefined [OF r t n, unfolded ty]
  from th have ex: "exit_code (main ?w) = 0" by blast
  from th have line: "stdout (main ?w) ! 2 =
      ''Subject: '' @ default_subject (Some ''service'') (data0 ?w)" by blast
  from th have svc: "default_subject (Some ''service'') (data0 ?w) =
      format_s (map_of (nagios (data0 ?w)) ''SERVICESTATE'') @ '': '' @
      format_s (map_of (nagios (data0 ?w)) ''HOSTADDRESS'') @ '' - '' @
      format_s (map_of (nagios (data0 ?w)) ''SERVICEDESC'')" by blast
  have keys: "''SERVICESTATE'' \<notin> fst ` set (nagios (data0 ?w))" by (simp add: nag)
  have "stdout (main ?w) ! 2 = ''Subject: undefined: web1 - undefined''"
    unfolding line svc nag by (simp add: format_s_def)
  with ex keys show ?thesis by blast
qed

section \<open>The two-stage rendering\<close>

lemma render_message_eq:
  "render_message w os ty dat =
     (fst (render_file w (templfile w os ty) (with_d w dat) (fst (render_default w (with_d w dat)))),
      snd (render_default w (with_d w dat)) @
      snd (render_file w (templfile w os ty) (with_d w dat) (fst (render_default w (with_d w dat)))))"
  by (simp add: render_message_def split: prod.splits)

lemma render_message_fst:
  "fst (render_message w os ty dat) =
     (case readFileSync w (templfile w os ty) of
        Inl e \<Rightarrow> fst (render_default w (with_d w dat))
      | Inr t \<Rightarrow> (case ejs_render w t (with_d w dat) of
                   Inl e \<Rightarrow> fst (render_default w (with_d w dat))
                 | Inr m \<Rightarrow> Some m))"
  by (simp add: render_message_eq render_file_def split: sum.splits)

lemma render_message_snd:
  "snd (render_message w os ty dat) =
     snd (render_default w (with_d w dat)) @
     (case readFileSync w (templfile w os ty) of
        Inl e \<Rightarrow> [''template '' @ templfile w os ty @ '' error: '' @ e]
      | Inr t \<Rightarrow> (case ejs_render w t (with_d w dat) of
                   Inl e \<Rightarrow> [''template '' @ templfile w os ty @ '' error: '' @ e]
                 | Inr m \<Rightarrow> []))"
  by (simp add: render_message_eq render_file_def split: sum.splits)

lemma templfile_with_subject: "templfile w (with_subject os ty dat) ty' = templfile w os ty'"
  by (simp add: templfile_def with_subject_def)

text \<open>
  C4, as the claim states it, fails in its last part: the output can be empty. With the
  template directory \<^verbatim>\<open>/opt/empty\<close>, whose host template is an empty file that renders
  to the empty text, the run succeeds, logs nothing and its message body is empty.
\<close>

theorem C4_counterexample:
  "readFileSync (sample_world [(''NAGIOS_CONTACTEMAIL'', ''a@b.com'')] [Opt_t ''/opt/empty''])
      ''/opt/empty/host.html.ejs'' = Inr []
   \<and> exit_code (main (sample_world [(''NAGIOS_CONTACTEMAIL'', ''a@b.com'')] [Opt_t ''/opt/empty''])) = 0
   \<and> stdout (main (sample_world [(''NAGIOS_CONTACTEMAIL'', ''a@b.com'')] [Opt_t ''/opt/empty'']))
       = [''To: a@b.com'', ''Reply-To: a@b.com'', ''Subject: undefined is undefined'',
          ''Content-Type: text/html'', [], []]
   \<and> last (stdout (main (sample_world [(''NAGIOS_CONTACTEMAIL'', ''a@b.com'')]
        [Opt_t ''/opt/empty'']))) = []
   \<and> stderr (main (sample_world [(''NAGIOS_CONTACTEMAIL'', ''a@b.com'')] [Opt_t ''/opt/empty''])) = []"
  by (simp add: sample_simps script_simps)

text \<open>
  C4, amended. A run that reaches the rendering always sets and emits a message. The
  first stage renders the built-in template
  \<^verbatim>\<open><html><body><pre><%= d %></pre></body></html>\<close> with \<^verbatim>\<open>data.d\<close> holding the JSON text
  of the data; when that fails, the text \<^verbatim>\<open>error rendering default template!: \<close> followed
  by the error message becomes the message, which is then not empty, and is written to
  the error stream. The second stage tries the file \<^verbatim>\<open><type>.html.ejs\<close> in the template
  directory (the argument of the last \<^verbatim>\<open>-t\<close> flag, else \<^verbatim>\<open>templates\<close> beside the
  script): only when the file is read and rendered does its result replace the message;
  when reading or rendering fails, \<^verbatim>\<open>template <file> error: <message>\<close> is written to the
  error stream and the message of the first stage stays. The message is the sixth and
  last line of standard output and the run ends with status 0. The message is never
  unset; it is the empty text when a template renders to the empty text.
\<close>

theorem C4_two_stage_rendering:
  fixes w :: world and os :: opts
    and ty :: "string option" and dat :: data and tfile first :: string
  assumes "getopt_loop w (getopt_results w) (opts0 w) = Inr os"
      and "truthy (to os)"
  defines "ty \<equiv> alert_type (process_env w) (nagios_of (process_env w))"
      and "dat \<equiv> \<lparr>args = argv_rest w, nagios = nagios_of (process_env w),
                    package = package_json w,
                    d = Some (json_stringify w
                          \<lparr>args = argv_rest w, nagios = nagios_of (process_env w),
                           package = package_json w, d = None\<rparr>)\<rparr>"
      and "tfile \<equiv> path_join w (templatedir os) (format_s ty @ ''.html.ejs'')"
      and "first \<equiv> (case ejs_render w ''<html><body><pre><%= d %></pre></body></html>'' dat of
                       Inr m \<Rightarrow> m
                     | Inl e \<Rightarrow> ''error rendering default template!: '' @ e)"
  shows "exit_code (main w) = 0
       \<and> length (stdout (main w)) = 6
       \<and> last (stdout (main w)) =
           (case readFileSync w tfile of
              Inl e \<Rightarrow> first
            | Inr t \<Rightarrow> (case ejs_render w t dat of Inl e \<Rightarrow> first | Inr m \<Rightarrow> m))
       \<and> stderr (main w) =
           (case ejs_render w ''<html><body><pre><%= d %></pre></body></html>'' dat of
              Inr m \<Rightarrow> []
            | Inl e \<Rightarrow> [''error rendering default template!: '' @ e]) @
           (case readFileSync w tfile of
              Inl e \<Rightarrow> [''template '' @ tfile @ '' error: '' @ e]
            | Inr t \<Rightarrow> (case ejs_render w t dat of
                         Inl e \<Rightarrow> [''template '' @ tfile @ '' error: '' @ e]
                       | Inr m \<Rightarrow> []))
       \<and> fst (render_message w (with_subject os ty (data0 w)) ty (data0 w))
           = Some (last (stdout (main w)))
       \<and> (\<forall>e. ejs_render w ''<html><body><pre><%= d %></pre></body></html>'' dat = Inl e
             \<longrightarrow> first \<noteq> [])
       \<and> ((\<forall>u. Opt_t u \<notin> set (getopt_results w))
             \<longrightarrow> templatedir os = path_join w (dirname w) ''templates'')
       \<and> (\<forall>pre u post. getopt_results w = pre @ Opt_t u # post \<and> (\<forall>v. Opt_t v \<notin> set post)
             \<longrightarrow> templatedir os = u)"
proof -
  have m: "main w = emit w os ty (data0 w)"
    unfolding ty_def by (rule main_emit [OF assms(1,2)])
  have dat: "with_d w (data0 w) = dat"
    by (simp add: dat_def with_d_def data0_def)
  have tf: "templfile w (with_subject os ty (data0 w)) ty = tfile"
    by (simp add: tfile_def templfile_def with_subject_def)
  have dflt: "render_default w dat =
      (case ejs_render w ''<html><body><pre><%= d %></pre></body></html>'' dat of
         Inr m \<Rightarrow> (Some m, [])
       | Inl e \<Rightarrow> (Some (''error rendering default template!: '' @ e),
                   [''error rendering default template!: '' @ e]))"
    by (simp add: render_default_def templ_def Let_def split: sum.splits)
  have first: "fst (render_default w dat) = Some first"
    by (simp add: dflt first_def split: sum.splits)
  have msg: "fst (render_message w (with_subject os ty (data0 w)) ty (data0 w)) =
      Some (case readFileSync w tfile of
              Inl e \<Rightarrow> first
            | Inr t \<Rightarrow> (case ejs_render w t dat of Inl e \<Rightarrow> first | Inr m \<Rightarrow> m))"
    by (simp add: render_message_fst tf dat first split: sum.splits)
  have c1: "exit_code (main w) = 0" by (simp add: m exit_code_emit)
  have c2: "length (stdout (main w)) = 6" by (simp add: m stdout_emit headers_def)
  have c3: "last (stdout (main w)) =
      (case readFileSync w tfile of
         Inl e \<Rightarrow> first
       | Inr t \<Rightarrow> (case ejs_render w t dat of Inl e \<Rightarrow> first | Inr m \<Rightarrow> m))"
    by (simp add: m stdout_emit msg format_s_def)
  have c4: "stderr (main w) =
      (case ejs_render w ''<html><body><pre><%= d %></pre></body></html>'' dat of
         Inr m \<Rightarrow> []
       | Inl e \<Rightarrow> [''error rendering default template!: '' @ e]) @
      (case readFileSync w tfile of
         Inl e \<Rightarrow> [''template '' @ tfile @ '' error: '' @ e]
       | Inr t \<Rightarrow> (case ejs_render w t dat of
                    Inl e \<Rightarrow> [''template '' @ tfile @ '' error: '' @ e]
                  | Inr m \<Rightarrow> []))"
    by (simp add: m stderr_emit render_message_snd tf dat dflt split: sum.splits)
  have c5: "fst (render_message w (with_subject os ty (data0 w)) ty (data0 w))
      = Some (last (stdout (main w)))"
    by (simp add: msg c3)
  have c6: "\<forall>e. ejs_render w ''<html><body><pre><%= d %></pre></body></html>'' dat = Inl e
      \<longrightarrow> first \<noteq> []"
    by (simp add: first_def)
  have c7: "(\<forall>u. Opt_t u \<notin> set (getopt_results w))
      \<longrightarrow> templatedir os = path_join w (dirname w) ''templates''"
    using getopt_loop_keeps_templatedir [OF assms(1)] by (simp add: opts0_def)
  have c8: "\<forall>pre u post. getopt_results w = pre @ Opt_t u # post \<and> (\<forall>v. Opt_t v \<notin> set post)
      \<longrightarrow> templatedir os = u"
    using getopt_loop_last_templatedir assms(1) by metis
  from c1 c2 c3 c4 c5 c6 c7 c8 show ?thesis by (intro conjI)
qed

theorem C4_witness:
  "last (stdout (main (sample_world
        [(''NAGIOS_CONTACTEMAIL'', ''a@b.com''), (''NAGIOS_SERVICEATTEMPT'', ''1'')] [])))
     = ''<html><body><pre>{ CONTACTEMAIL, SERVICEATTEMPT }</pre></body></html>''
   \<and> stderr (main (sample_world
        [(''NAGIOS_CONTACTEMAIL'', ''a@b.com''), (''NAGIOS_SERVICEATTEMPT'', ''1'')] []))
     = [''template /opt/templates/service.html.ejs error: ENOENT, no such file or directory /opt/templates/service.html.ejs'']
   \<and> exit_code (main (sample_world
        [(''NAGIOS_CONTACTEMAIL'', ''a@b.com''), (''NAGIOS_SERVICEATTEMPT'', ''1'')] [])) = 0
   \<and> last (stdout (main (sample_world [(''NAGIOS_CONTACTEMAIL'', ''a@b.com'')] [])))
     = ''<h1>host alert</h1>''
   \<and> stderr (main (sample_world [(''NAGIOS_CONTACTEMAIL'', ''a@b.com'')] [])) = []
   \<and> last (stdout (main (sample_world [(''NAGIOS_CONTACTEMAIL'', ''a@b.com'')] []
        \<lparr>ejs_render := sample_ejs_broken\<rparr>)))
     = ''error rendering default template!: ejs is broken''
   \<and> stderr (main (sample_world [(''NAGIOS_CONTACTEMAIL'', ''a@b.com'')] []
        \<lparr>ejs_render := sample_ejs_broken\<rparr>))
     = [''error rendering default template!: ejs is broken'',
        ''template /opt/templates/host.html.ejs error: ejs is broken'']"
proof -
  let ?w1 = "sample_world [(''NAGIOS_CONTACTEMAIL'', ''a@b.com''), (''NAGIOS_SERVICEATTEMPT'', ''1'')] []"
  let ?w2 = "sample_world [(''NAGIOS_CONTACTEMAIL'', ''a@b.com'')] []"
  let ?w3 = "sample_world [(''NAGIOS_CONTACTEMAIL'', ''a@b.com'')] [] \<lparr>ejs_render := sample_ejs_broken\<rparr>"
  let ?ini = "\<lparr>subject = None, templatedir = ''/opt/templates'', to = Some ''a@b.com''\<rparr>"
  have r1: "getopt_loop ?w1 (getopt_results ?w1) (opts0 ?w1) = Inr ?ini"
    and r2: "getopt_loop ?w2 (getopt_results ?w2) (opts0 ?w2) = Inr ?ini"
    and r3: "getopt_loop ?w3 (getopt_results ?w3) (opts0 ?w3) = Inr ?ini"
    by (simp_all add: sample_simps opts0_def)
  have t: "truthy (to ?ini)" by (simp add: truthy_def)
  note th1 = C4_two_stage_rendering [OF r1 t]
  note th2 = C4_two_stage_rendering [OF r2 t]
  note th3 = C4_two_stage_rendering [OF r3 t]
  note ev = sample_simps format_s_def alert_type_def truthy_def nagios_of_def nagios_step_def
    starts_with_def prefix_def strip_prefix_def set_prop_def
  from th1 have a: "last (stdout (main ?w1))
      = ''<html><body><pre>{ CONTACTEMAIL, SERVICEATTEMPT }</pre></body></html>''"
    and b: "stderr (main ?w1)
      = [''template /opt/templates/service.html.ejs error: ENOENT, no such file or directory /opt/templates/service.html.ejs'']"
    and c: "exit_code (main ?w1) = 0"
    by (simp_all add: ev)
  from th2 have d: "last (stdout (main ?w2)) = ''<h1>host alert</h1>''"
    and e: "stderr (main ?w2) = []"
    by (simp_all add: ev)
  from th3 have f: "last (stdout (main ?w3)) = ''error rendering default template!: ejs is broken''"
    and g: "stderr (main ?w3) = [''error rendering default template!: ejs is broken'',
        ''template /opt/templates/host.html.ejs error: ejs is broken'']"
    by (simp_all add: ev)
  from a b c d e f g show ?thesis by (intro conjI)
qed

section \<open>The dead branch\<close>

lemma usage_neq_type_message: "usage \<noteq> ''a type must be specified as the first argument!''"
  by (simp add: usage_def)

lemma render_message_stderr:
  "''a type must be specified as the first argument!'' \<notin> set (snd (render_message w os ty dat))"
  by (simp add: render_message_eq render_default_def render_file_def Let_def split: sum.splits)

text \<open>
  C8. The type is truthy for every environment, so the script after the option loop
  never takes the branch \<^verbatim>\<open>if (!type)\<close>, and no run writes its message
  \<^verbatim>\<open>a type must be specified as the first argument!\<close> to the error stream.
\<close>

theorem C8_type_branch_unreachable:
  "truthy (alert_type (process_env w) (nagios (data0 w)))
   \<and> body w os = (if \<not> truthy (to os) then to_missing
                  else emit w os (alert_type (process_env w) (nagios (data0 w))) (data0 w))
   \<and> ''a type must be specified as the first argument!'' \<notin> set (stderr (main w))"
proof (intro conjI)
  show "truthy (alert_type (process_env w) (nagios (data0 w)))" by (rule truthy_alert_type)
  show b: "body w os = (if \<not> truthy (to os) then to_missing
                  else emit w os (alert_type (process_env w) (nagios (data0 w))) (data0 w))" for os
    by (simp add: body_def Let_def truthy_alert_type)
  show "''a type must be specified as the first argument!'' \<notin> set (stderr (main w))"
  proof (cases "getopt_loop w (getopt_results w) (opts0 w)")
    case (Inl r)
    with getopt_loop_stderr [OF Inl] usage_neq_type_message show ?thesis
      by (auto simp: main_def)
  next
    case (Inr os')
    then have "main w = body w os'" by (simp add: main_def)
    then show ?thesis
      using usage_neq_type_message
      by (simp add: b to_missing_def stderr_emit render_message_stderr)
  qed
qed

theorem C8_witness:
  "alert_type (process_env (sample_world [(''NAGIOS_HOSTSTATE'', ''DOWN'')] []))
      (nagios (data0 (sample_world [(''NAGIOS_HOSTSTATE'', ''DOWN'')] []))) = Some ''host''
   \<and> truthy (alert_type (process_env (sample_world [(''NAGIOS_HOSTSTATE'', ''DOWN'')] []))
      (nagios (data0 (sample_world [(''NAGIOS_HOSTSTATE'', ''DOWN'')] []))))
   \<and> ''a type must be specified as the first argument!''
       \<notin> set (stderr (main (sample_world [(''NAGIOS_HOSTSTATE'', ''DOWN'')] [])))
   \<and> main (sample_world [(''NAGIOS_HOSTSTATE'', ''DOWN'')] []) = to_missing"
proof -
  let ?w = "sample_world [(''NAGIOS_HOSTSTATE'', ''DOWN'')] []"
  have ty: "alert_type (process_env ?w) (nagios (data0 ?w)) = Some ''host''"
    by (simp add: sample_simps script_simps)
  have m: "main ?w = to_missing"
    by (simp add: sample_simps script_simps)
  from C8_type_branch_unreachable [of ?w] ty m show ?thesis by blast
qed

end
